theory Spec2Isabelle
  imports Complex_Main "HOL-Library.Word" "HOL-Library.Sublist"
begin

section \<open>The dialogue model (main.py, lines 51-66)\<close>

text \<open>
  A Python \<^verbatim>\<open>str\<close> is a \<^typ>\<open>string\<close>, one \<^typ>\<open>char\<close> for each character of the
  text; \<^verbatim>\<open>bytes\<close> is a list of 8-bit words.  The field
  \<^verbatim>\<open>speaker: Literal["female-1", "male-1", "female-2"]\<close> is validated by pydantic, so
  a \<^verbatim>\<open>DialogueItem\<close> holds one of three values: a datatype, with \<open>speaker_str\<close> for the
  string the source formats and looks up.
\<close>

type_synonym bytes = "8 word list"

datatype speaker = Female1 | Male1 | Female2

fun speaker_str :: "speaker \<Rightarrow> string" where
  "speaker_str Female1 = ''female-1''"
| "speaker_str Male1 = ''male-1''"
| "speaker_str Female2 = ''female-2''"

record DialogueItem =
  item_text :: string
  speaker :: speaker

record Dialogue =
  scratchpad :: string
  dialogue :: "DialogueItem list"

text \<open>
  The exceptions the code meets, all subclasses of \<^verbatim>\<open>Exception\<close>:
  \<^verbatim>\<open>openai.RateLimitError\<close>, \<^verbatim>\<open>pydantic.ValidationError\<close>, \<^verbatim>\<open>KeyError\<close>, \<^verbatim>\<open>OSError\<close>,
  tenacity's \<^verbatim>\<open>RetryError\<close> (which wraps the last exception of the call), \<^verbatim>\<open>gr.Error\<close>
  with its message, and any other exception with its message.  What is not an
  \<^verbatim>\<open>Exception\<close> (\<^verbatim>\<open>KeyboardInterrupt\<close>, \<^verbatim>\<open>SystemExit\<close>) is left out.
\<close>

datatype exn =
    RateLimitError
  | ValidationError
  | KeyError
  | OSError
  | RetryError exn
  | Error string
  | Exception string

text \<open>
  The property \<^verbatim>\<open>DialogueItem.voice\<close> indexes a literal dictionary with the speaker
  string; a missing key would raise \<^verbatim>\<open>KeyError\<close>, which is \<open>Inl KeyError\<close> here.
\<close>

definition voice_table :: "(string \<times> string) list" where
  "voice_table =
     [(''female-1'', ''alloy''),
      (''male-1'', ''onyx''),
      (''female-2'', ''shimmer'')]"

definition voice :: "DialogueItem \<Rightarrow> exn + string" where
  "voice item =
     (case map_of voice_table (speaker_str (speaker item)) of
        None \<Rightarrow> Inl KeyError
      | Some v \<Rightarrow> Inr v)"

section \<open>The environment and the observable state\<close>

text \<open>
  Everything outside the process is a field of \<open>env\<close>: the environment variable
  \<^verbatim>\<open>OPENAI_API_KEY\<close>, the two document sources (\<open>Inl m\<close>: the call raised an exception
  whose \<^verbatim>\<open>str\<close> is \<open>m\<close>), the language model and the speech service (the answer to the
  \<open>k\<close>-th request; both may answer differently each time), the name
  \<^verbatim>\<open>NamedTemporaryFile\<close> creates, with its place in the listing and the modification
  time the file gets, and the readings of \<^verbatim>\<open>time.time()\<close>, in seconds.  Times are real
  numbers; the rounding of Python's floats is left out.

  What the process does to the outside is the \<open>world\<close>: how many requests each service
  has received, every \<^verbatim>\<open>time.sleep\<close> in order (seconds), how often the clock was read,
  and the entries of the temporary directory in listing order.
\<close>

record entry =
  mtime :: real
  is_file :: bool
  removable :: bool
  content :: bytes

type_synonym directory = "(string \<times> entry) list"

record env =
  getenv_key :: "string option"
  docs_text :: "string \<Rightarrow> string + string"
  pdf_pages :: "string \<Rightarrow> string + string list"
  llm :: "nat \<Rightarrow> string option \<Rightarrow> string \<Rightarrow> exn + Dialogue"
  speech :: "nat \<Rightarrow> string option \<Rightarrow> string \<Rightarrow> string \<Rightarrow> exn + bytes"
  tmp_name :: string
  tmp_slot :: nat
  write_time :: real
  clock :: "nat \<Rightarrow> real"

record world =
  llm_calls :: nat
  tts_calls :: nat
  slept :: "real list"
  clock_reads :: nat
  files :: directory

text \<open>Python's \<^verbatim>\<open>a or b\<close> on optional strings: \<^verbatim>\<open>None\<close> and \<^verbatim>\<open>""\<close> are false.\<close>

fun truthy :: "string option \<Rightarrow> bool" where
  "truthy None = False"
| "truthy (Some s) = (s \<noteq> [])"

definition py_or :: "string option \<Rightarrow> string option \<Rightarrow> string option" where
  "py_or a b = (if truthy a then a else b)"

definition sleep :: "real \<Rightarrow> world \<Rightarrow> world" where
  "sleep d w = w\<lparr>slept := slept w @ [d]\<rparr>"

section \<open>The retry policies of tenacity\<close>

text \<open>
  The decorators come from the tenacity library, which is not part of the repository.
  Its controller calls the function; when the call returns, or raises an exception the
  \<^verbatim>\<open>retry\<close> predicate rejects, that outcome is the result; otherwise, when \<^verbatim>\<open>stop\<close>
  holds of the attempt number (counted from 1), it raises \<^verbatim>\<open>RetryError\<close>; otherwise it
  sleeps \<^verbatim>\<open>wait(attempt_number)\<close> seconds and calls again.  The policies:
  \<^verbatim>\<open>stop_after_attempt(n)\<close> is \<^verbatim>\<open>attempt_number >= n\<close>; \<^verbatim>\<open>wait_exponential\<close> is
  \<^verbatim>\<open>max(max(0, min), min(multiplier * 2 ** (attempt_number - 1), max))\<close>; the defaults
  are \<^verbatim>\<open>stop_never\<close> and \<^verbatim>\<open>wait_none\<close>, a sleep of 0 seconds.  (Older releases of
  tenacity take the exponent \<^verbatim>\<open>attempt_number\<close>; with the minimum of 4 seconds the
  first two waits are 4 seconds there too.)
\<close>

definition stop_after_attempt :: "nat \<Rightarrow> nat \<Rightarrow> bool" where
  "stop_after_attempt max_attempt_number attempt_number =
     (attempt_number \<ge> max_attempt_number)"

definition wait_exponential :: "real \<Rightarrow> real \<Rightarrow> real \<Rightarrow> nat \<Rightarrow> real" where
  "wait_exponential multiplier mn mx attempt_number =
     max (max 0 mn) (min (multiplier * 2 ^ (attempt_number - 1)) mx)"

definition wait_none :: "nat \<Rightarrow> real" where
  "wait_none attempt_number = 0"

section \<open>get_mp3 (main.py, lines 69-87)\<close>

text \<open>
  One call of the undecorated function issues one speech request and returns the whole
  payload or raises.  The key is \<^verbatim>\<open>api_key or os.getenv("OPENAI_API_KEY")\<close>.
\<close>

definition speech_request ::
  "env \<Rightarrow> string \<Rightarrow> string \<Rightarrow> string option \<Rightarrow> world \<Rightarrow> (exn + bytes) \<times> world" where
  "speech_request e txt v api_key w =
     (speech e (tts_calls w) (py_or api_key (getenv_key e)) v txt,
      w\<lparr>tts_calls := Suc (tts_calls w)\<rparr>)"

text \<open>
  The decorated function: retry on \<^verbatim>\<open>RateLimitError\<close> only,
  \<^verbatim>\<open>wait_exponential(multiplier=1, min=4, max=60)\<close>, \<^verbatim>\<open>stop_after_attempt(5)\<close>.
  \<open>n\<close> is the attempt number.
\<close>

function get_mp3_from ::
  "env \<Rightarrow> string \<Rightarrow> string \<Rightarrow> string option \<Rightarrow> nat \<Rightarrow> world \<Rightarrow> (exn + bytes) \<times> world" where
  "get_mp3_from e txt v api_key n w =
     (case speech_request e txt v api_key w of
        (Inr b, w1) \<Rightarrow> (Inr b, w1)
      | (Inl x, w1) \<Rightarrow>
          if x \<noteq> RateLimitError then (Inl x, w1)
          else if stop_after_attempt 5 n then (Inl (RetryError x), w1)
          else get_mp3_from e txt v api_key (Suc n) (sleep (wait_exponential 1 4 60 n) w1))"
  by pat_completeness auto
termination
  by (relation "measure (\<lambda>(e, txt, v, api_key, n, w). 5 - n)")
     (auto simp: stop_after_attempt_def)

declare get_mp3_from.simps [simp del]

definition get_mp3 ::
  "env \<Rightarrow> string \<Rightarrow> string \<Rightarrow> string option \<Rightarrow> world \<Rightarrow> (exn + bytes) \<times> world" where
  "get_mp3 e txt v api_key w = get_mp3_from e txt v api_key 1 w"

section \<open>The synthesis loop of generate_audio (main.py, lines 213-235)\<close>

text \<open>
  The three accumulators of the loop.  \<open>characters\<close> counts \<^verbatim>\<open>len(line.text)\<close>.
\<close>

record acc =
  audio :: bytes
  transcript :: string
  characters :: nat

definition transcript_line :: "DialogueItem \<Rightarrow> string" where
  "transcript_line line = speaker_str (speaker line) @ '': '' @ item_text line"

definition failure_marker :: string where
  "failure_marker = '' [AUDIO GENERATION FAILED]''"

definition two_newlines :: string where
  "two_newlines = [CHR 0x0A, CHR 0x0A]"

text \<open>
  The expression \<^verbatim>\<open>get_mp3(line.text, line.voice, openai_api_key)\<close> inside
  \<^verbatim>\<open>try\<close>: the voice lookup is evaluated first, and an exception of either part is
  caught by the same \<^verbatim>\<open>except Exception\<close>.
\<close>

definition synthesize :: "env \<Rightarrow> string option \<Rightarrow> DialogueItem \<Rightarrow> world \<Rightarrow> (exn + bytes) \<times> world" where
  "synthesize e api_key line w =
     (case voice line of
        Inl x \<Rightarrow> (Inl x, w)
      | Inr v \<Rightarrow> get_mp3 e (item_text line) v api_key w)"

text \<open>One iteration of the loop body, lines 220-235.\<close>

definition process_line ::
  "env \<Rightarrow> string option \<Rightarrow> DialogueItem \<Rightarrow> acc \<times> world \<Rightarrow> acc \<times> world" where
  "process_line e api_key line s =
     (case s of (a, w) \<Rightarrow>
       (case synthesize e api_key line w of
          (Inr audio_chunk, w1) \<Rightarrow>
            (a\<lparr>audio := audio a @ audio_chunk,
               transcript := transcript a @ transcript_line line @ two_newlines,
               characters := characters a + length (item_text line)\<rparr>,
             sleep 0.2 w1)
        | (Inl x, w1) \<Rightarrow>
            (a\<lparr>transcript := transcript a @ transcript_line line @ failure_marker @ two_newlines\<rparr>,
             w1)))"

fun process_lines ::
  "env \<Rightarrow> string option \<Rightarrow> DialogueItem list \<Rightarrow> acc \<times> world \<Rightarrow> acc \<times> world" where
  "process_lines e api_key [] s = s"
| "process_lines e api_key (line # rest) s =
     process_lines e api_key rest (process_line e api_key line s)"

definition empty_acc :: acc where
  "empty_acc = \<lparr>audio = [], transcript = [], characters = 0\<rparr>"

text \<open>
  The outcome of the synthesis of each line, in order, as the loop meets them: the
  result of \<open>synthesize\<close> in the world the earlier iterations have left.
\<close>

fun outcomes :: "env \<Rightarrow> string option \<Rightarrow> DialogueItem list \<Rightarrow> acc \<times> world \<Rightarrow> (exn + bytes) list" where
  "outcomes e api_key [] s = []"
| "outcomes e api_key (line # rest) s =
     fst (synthesize e api_key line (snd s))
       # outcomes e api_key rest (process_line e api_key line s)"

section \<open>Reading the document (main.py, lines 148-171)\<close>

text \<open>
  \<^verbatim>\<open>str.strip()\<close> removes the characters \<^verbatim>\<open>str.isspace()\<close> accepts from both ends;
  these are the ones among the first 256 code points.
\<close>

definition isspace :: "char \<Rightarrow> bool" where
  "isspace c = (of_char c \<in> {9, 10, 11, 12, 13, 28, 29, 30, 31, 32, 133, 160 :: nat})"

definition strip :: "string \<Rightarrow> string" where
  "strip s = rev (dropWhile isspace (rev (dropWhile isspace s)))"

fun join :: "string \<Rightarrow> string list \<Rightarrow> string" where
  "join sep [] = []"
| "join sep [x] = x"
| "join sep (x # y # ys) = x @ sep @ join sep (y # ys)"

definition is_google_docs_url :: "string \<Rightarrow> bool" where
  "is_google_docs_url s =
     ((prefix ''http://'' s \<or> prefix ''https://'' s) \<and> sublist ''docs.google.com'' s)"

text \<open>
  The raw text of the chosen source, before the emptiness check: the Google Docs text,
  or the pages of the PDF joined by two newlines.
\<close>

definition source_text :: "env \<Rightarrow> string \<Rightarrow> string + string" where
  "source_text e file_or_url =
     (if is_google_docs_url file_or_url then docs_text e file_or_url
      else (case pdf_pages e file_or_url of
              Inl m \<Rightarrow> Inl m
            | Inr pages \<Rightarrow> Inr (join two_newlines pages)))"

text \<open>
  Both branches raise \<^verbatim>\<open>gr.Error\<close> inside their own \<^verbatim>\<open>try\<close> when the stripped text is
  empty, and the \<^verbatim>\<open>except Exception\<close> wraps every exception, this one too, in a new
  \<^verbatim>\<open>gr.Error\<close> with a prefix.
\<close>

definition extract_text :: "env \<Rightarrow> string \<Rightarrow> exn + string" where
  "extract_text e file_or_url =
     (if is_google_docs_url file_or_url then
        (case source_text e file_or_url of
           Inl m \<Rightarrow> Inl (Error (''Failed to process Google Docs: '' @ m))
         | Inr t \<Rightarrow>
             if strip t = [] then
               Inl (Error (''Failed to process Google Docs: ''
                     @ ''No text content found in the Google Docs document''))
             else Inr t)
      else
        (case source_text e file_or_url of
           Inl m \<Rightarrow> Inl (Error (''Failed to process PDF: '' @ m))
         | Inr t \<Rightarrow>
             if strip t = [] then
               Inl (Error (''Failed to process PDF: '' @ ''No text content found in the PDF''))
             else Inr t))"

section \<open>generate_dialogue (main.py, lines 173-211)\<close>

text \<open>
  \<^verbatim>\<open>@retry(retry=retry_if_exception_type(ValidationError))\<close> with no \<^verbatim>\<open>stop\<close> and no
  \<^verbatim>\<open>wait\<close>: tenacity's defaults \<^verbatim>\<open>stop_never\<close> and \<^verbatim>\<open>wait_none\<close>.  The loop has no
  bound, so the function is partial: \<open>None\<close> means that it never returns.
\<close>

partial_function (option) generate_dialogue ::
  "env \<Rightarrow> string option \<Rightarrow> string \<Rightarrow> nat \<Rightarrow> world \<Rightarrow> ((exn + Dialogue) \<times> world) option" where
  "generate_dialogue e api_key txt n w =
     (case llm e (llm_calls w) (py_or api_key (getenv_key e)) txt of
        Inr d \<Rightarrow> Some (Inr d, w\<lparr>llm_calls := Suc (llm_calls w)\<rparr>)
      | Inl x \<Rightarrow>
          if x \<noteq> ValidationError then Some (Inl x, w\<lparr>llm_calls := Suc (llm_calls w)\<rparr>)
          else generate_dialogue e api_key txt (Suc n)
                 (sleep (wait_none n) (w\<lparr>llm_calls := Suc (llm_calls w)\<rparr>)))"

declare generate_dialogue.simps [code]

section \<open>Writing the artifact and the retention sweep (main.py, lines 239-256)\<close>

definition temporary_directory :: string where
  "temporary_directory = ''./gradio_cached_examples/tmp/''"

text \<open>
  \<^verbatim>\<open>glob.glob(f"{temporary_directory}*.mp3")\<close> lists the entries of the directory whose
  name ends in \<^verbatim>\<open>.mp3\<close>; as for every pattern that does not start with a dot, names
  that start with a dot are left out.  The list is made once, before the loop.  The
  model names an entry by its name inside the directory.
\<close>

definition glob_match :: "string \<Rightarrow> bool" where
  "glob_match name = (\<not> prefix ''.'' name \<and> suffix ''.mp3'' name)"

definition glob_mp3 :: "directory \<Rightarrow> string list" where
  "glob_mp3 d = filter glob_match (map fst d)"

definition remove :: "string \<Rightarrow> directory \<Rightarrow> directory" where
  "remove name d = filter (\<lambda>p. fst p \<noteq> name) d"

definition retention :: real where
  "retention = 24 * 60 * 60"

text \<open>
  The loop of lines 252-254, with the exception it may raise: \<^verbatim>\<open>os.path.isfile\<close> is
  false for a name that is gone and for an entry that is not a regular file, and then
  the clock is not read (\<^verbatim>\<open>and\<close> is short-circuit); \<^verbatim>\<open>os.remove\<close> raises \<^verbatim>\<open>OSError\<close>
  when the entry cannot be removed.  Nothing catches it.
\<close>

definition sweep_step :: "env \<Rightarrow> string \<Rightarrow> world \<Rightarrow> exn option \<times> world" where
  "sweep_step e name w =
     (case map_of (files w) name of
        None \<Rightarrow> (None, w)
      | Some f \<Rightarrow>
          if \<not> is_file f then (None, w)
          else if clock e (clock_reads w) - mtime f > retention then
            (if removable f then
               (None, w\<lparr>clock_reads := Suc (clock_reads w), files := remove name (files w)\<rparr>)
             else (Some OSError, w\<lparr>clock_reads := Suc (clock_reads w)\<rparr>))
          else (None, w\<lparr>clock_reads := Suc (clock_reads w)\<rparr>))"

fun sweep :: "env \<Rightarrow> string list \<Rightarrow> world \<Rightarrow> exn option \<times> world" where
  "sweep e [] w = (None, w)"
| "sweep e (name # names) w =
     (case sweep_step e name w of
        (Some x, w1) \<Rightarrow> (Some x, w1)
      | (None, w1) \<Rightarrow> sweep e names w1)"

text \<open>
  \<^verbatim>\<open>NamedTemporaryFile(dir=..., delete=False, suffix=".mp3")\<close> creates a file under a
  name that no entry has (it opens with \<^verbatim>\<open>O_EXCL\<close>, so an existing name is an error
  here), \<^verbatim>\<open>write\<close> and \<^verbatim>\<open>close\<close> give it its content and modification time.  Where
  the new entry stands in the listing is up to the file system: \<open>tmp_slot\<close>.  The
  directory is taken to exist (\<^verbatim>\<open>os.makedirs(..., exist_ok=True)\<close>), and the path
  returned is the directory followed by the name.
\<close>

definition new_entry :: "env \<Rightarrow> bytes \<Rightarrow> entry" where
  "new_entry e a = \<lparr>mtime = write_time e, is_file = True, removable = True, content = a\<rparr>"

definition written :: "env \<Rightarrow> bytes \<Rightarrow> world \<Rightarrow> world" where
  "written e a w =
     w\<lparr>files := take (tmp_slot e) (files w) @ [(tmp_name e, new_entry e a)]
                   @ drop (tmp_slot e) (files w)\<rparr>"

definition write_artifact :: "env \<Rightarrow> bytes \<Rightarrow> world \<Rightarrow> exn option \<times> world" where
  "write_artifact e a w =
     (if tmp_name e \<in> fst ` set (files w) then (Some OSError, w)
      else (None, written e a w))"

definition persist ::
  "env \<Rightarrow> bytes \<Rightarrow> string \<Rightarrow> world \<Rightarrow> (exn + string \<times> string) \<times> world" where
  "persist e a t w =
     (case write_artifact e a w of
        (Some x, w1) \<Rightarrow> (Inl x, w1)
      | (None, w1) \<Rightarrow>
          (case sweep e (glob_mp3 (files w1)) w1 of
             (Some x, w2) \<Rightarrow> (Inl x, w2)
           | (None, w2) \<Rightarrow> (Inr (temporary_directory @ tmp_name e, t), w2)))"

section \<open>generate_audio (main.py, lines 143-256)\<close>

definition generate_audio ::
  "env \<Rightarrow> string \<Rightarrow> string option \<Rightarrow> world \<Rightarrow> ((exn + string \<times> string) \<times> world) option" where
  "generate_audio e file_or_url openai_api_key w =
     (if \<not> (truthy (getenv_key e) \<or> truthy openai_api_key) then
        Some (Inl (Error ''OpenAI API key is required''), w)
      else
        (case extract_text e file_or_url of
           Inl x \<Rightarrow> Some (Inl x, w)
         | Inr txt \<Rightarrow>
             (case generate_dialogue e openai_api_key txt 1 w of
                None \<Rightarrow> None
              | Some (Inl x, w1) \<Rightarrow> Some (Inl x, w1)
              | Some (Inr llm_output, w1) \<Rightarrow>
                  (case process_lines e openai_api_key (dialogue llm_output) (empty_acc, w1) of
                     (a, w2) \<Rightarrow> Some (persist e (audio a) (transcript a) w2)))))"

section \<open>What the claims speak of\<close>

text \<open>
  The record of a line in the transcript, given the outcome of its synthesis, and the
  bytes an outcome contributes to the audio.
\<close>

definition line_record :: "DialogueItem \<Rightarrow> exn + bytes \<Rightarrow> string" where
  "line_record line r =
     transcript_line line @ (if isl r then failure_marker else []) @ two_newlines"

fun payload :: "exn + bytes \<Rightarrow> bytes" where
  "payload (Inl x) = []"
| "payload (Inr b) = b"

text \<open>The records of a run of the loop from the empty accumulators, one for each line.\<close>

definition records :: "env \<Rightarrow> string option \<Rightarrow> DialogueItem list \<Rightarrow> world \<Rightarrow> string list" where
  "records e api_key lines w =
     map2 line_record lines (outcomes e api_key lines (empty_acc, w))"


definition whitespace_only :: "string \<Rightarrow> bool" where
  "whitespace_only t = list_all isspace t"

text \<open>
  A concrete run: the language model fails validation once and then answers with three
  lines; the speech service answers the first request, refuses the second as malformed,
  and is rate-limited from the third on.  The directory holds a stale artifact, a recent
  one and a stale artifact that cannot be removed.
\<close>

definition demo_lines :: "DialogueItem list" where
  "demo_lines =
     [\<lparr>item_text = ''Hi'', speaker = Female1\<rparr>,
      \<lparr>item_text = ''Hello!'', speaker = Male1\<rparr>,
      \<lparr>item_text = ''Bye'', speaker = Female2\<rparr>]"

definition demo_llm :: "nat \<Rightarrow> string option \<Rightarrow> string \<Rightarrow> exn + Dialogue" where
  "demo_llm k key txt =
     (if k = 0 then Inl ValidationError
      else Inr \<lparr>scratchpad = ''plan'', dialogue = demo_lines\<rparr>)"

definition demo_speech :: "nat \<Rightarrow> string option \<Rightarrow> string \<Rightarrow> string \<Rightarrow> exn + bytes" where
  "demo_speech k key v txt =
     (if k = 0 then Inr [73, 68, 51]
      else if k = 1 then Inl (Exception ''bad request'')
      else Inl RateLimitError)"

definition demo_env :: env where
  "demo_env =
     \<lparr>getenv_key = None,
      docs_text = (\<lambda>url. Inr [CHR 0x20, CHR 0x0A]),
      pdf_pages = (\<lambda>path. Inr [''Page one'', ''Page two'']),
      llm = demo_llm,
      speech = demo_speech,
      tmp_name = ''tmpk3x9q2ab.mp3'',
      tmp_slot = 1,
      write_time = 200000,
      clock = (\<lambda>k. 200001 + real k)\<rparr>"

definition stale :: entry where
  "stale = \<lparr>mtime = 100000, is_file = True, removable = True, content = [1]\<rparr>"

definition recent :: entry where
  "recent = \<lparr>mtime = 150000, is_file = True, removable = True, content = [2]\<rparr>"


definition demo_world :: world where
  "demo_world =
     \<lparr>llm_calls = 0, tts_calls = 0, slept = [], clock_reads = 0,
      files = [(''tmpold.mp3'', stale), (''tmpnew.mp3'', recent)]\<rparr>"


definition rate_limited_env :: env where
  "rate_limited_env = demo_env\<lparr>speech := (\<lambda>k key v txt. Inl RateLimitError)\<rparr>"

definition invalid_env :: env where
  "invalid_env = demo_env\<lparr>llm := (\<lambda>k key txt. Inl ValidationError)\<rparr>"

section \<open>The voice of a speaker\<close>

lemma voice_cases:
  "voice item =
     (case speaker item of
        Female1 \<Rightarrow> Inr ''alloy''
      | Male1 \<Rightarrow> Inr ''onyx''
      | Female2 \<Rightarrow> Inr ''shimmer'')"
  by (cases "speaker item") (simp_all add: voice_def voice_table_def)

text \<open>
  C9.  The lookup never raises: every item has exactly one voice, one of the three of
  the table, and it depends on the speaker alone, so two items with the same speaker
  (whatever their text) resolve to the same voice.
\<close>

theorem voice_total_stable:
  "speaker a = speaker b \<Longrightarrow>
     (\<exists>!v. voice a = Inr v) \<and> voice b = voice a
     \<and> voice a \<in> {Inr ''alloy'', Inr ''onyx'', Inr ''shimmer''}"
  by (cases "speaker b") (auto simp: voice_cases)

theorem voice_total_stable_witness:
  "speaker \<lparr>item_text = ''Hi'', speaker = Male1\<rparr>
     = speaker \<lparr>item_text = ''Bye'', speaker = Male1\<rparr>
   \<and> (\<exists>!v. voice \<lparr>item_text = ''Hi'', speaker = Male1\<rparr> = Inr v)
   \<and> voice \<lparr>item_text = ''Bye'', speaker = Male1\<rparr> = Inr ''onyx''"
  using voice_total_stable
    [of "\<lparr>item_text = ''Hi'', speaker = Male1\<rparr>" "\<lparr>item_text = ''Bye'', speaker = Male1\<rparr>"]
  by (simp add: voice_def voice_table_def)

section \<open>The retries of get_mp3\<close>

text \<open>
  Whatever the service answers, the waits of one call lie between the minimum and the
  ceiling, and the call touches nothing but the request counter and the sleep log.
\<close>

lemma wait_exponential_bounds:
  "4 \<le> wait_exponential 1 4 60 n \<and> wait_exponential 1 4 60 n \<le> 60"
  by (simp add: wait_exponential_def)

lemma get_mp3_from_sleeps:
  "\<exists>ds. slept (snd (get_mp3_from e t v api_key n w)) = slept w @ ds
        \<and> (\<forall>d\<in>set ds. 4 \<le> d \<and> d \<le> 60)"
proof (induction e t v api_key n w rule: get_mp3_from.induct)
  case (1 e t v api_key n w)
  show ?case
  proof (cases "speech e (tts_calls w) (py_or api_key (getenv_key e)) v t")
    case (Inr b)
    then show ?thesis by (simp add: get_mp3_from.simps speech_request_def)
  next
    case (Inl x)
    show ?thesis
    proof (cases "x \<noteq> RateLimitError \<or> stop_after_attempt 5 n")
      case True
      with Inl show ?thesis by (auto simp add: get_mp3_from.simps speech_request_def)
    next
      case False
      let ?w1 = "w\<lparr>tts_calls := Suc (tts_calls w)\<rparr>"
      let ?w2 = "sleep (wait_exponential 1 4 60 n) ?w1"
      from False Inl have sr: "speech_request e t v api_key w = (Inl x, ?w1)"
        by (simp add: speech_request_def)
      from "1.IH" [OF sr [symmetric] refl] False
      obtain ds where ds:
        "slept (snd (get_mp3_from e t v api_key (Suc n) ?w2)) = slept ?w2 @ ds"
        "\<forall>d\<in>set ds. 4 \<le> d \<and> d \<le> 60"
        by auto
      have eq: "get_mp3_from e t v api_key n w = get_mp3_from e t v api_key (Suc n) ?w2"
        using False sr by (subst get_mp3_from.simps) simp
      show ?thesis
        apply (rule exI [of _ "wait_exponential 1 4 60 n # ds"])
        using ds wait_exponential_bounds [of n] by (simp add: eq sleep_def)
    qed
  qed
qed

text \<open>
  C4.  When the service answers a request with an error that is not a rate-limit error,
  the call ends there, at whatever attempt: that very error is raised, unwrapped, one
  request has been made and nothing has been slept.  \<open>get_mp3\<close> starts at attempt 1,
  so an error of the first request leaves exactly one request behind.
\<close>

theorem get_mp3_no_retry:
  assumes "speech e (tts_calls w) (py_or api_key (getenv_key e)) v t = Inl x"
    and "x \<noteq> RateLimitError"
  shows "get_mp3_from e t v api_key n w = (Inl x, w\<lparr>tts_calls := Suc (tts_calls w)\<rparr>)
       \<and> get_mp3 e t v api_key w = (Inl x, w\<lparr>tts_calls := Suc (tts_calls w)\<rparr>)"
  using assms by (simp add: get_mp3_def get_mp3_from.simps speech_request_def)

theorem get_mp3_no_retry_witness:
  "speech demo_env (tts_calls (demo_world\<lparr>tts_calls := 1\<rparr>)) (py_or None (getenv_key demo_env))
      ''onyx'' ''Hello!'' = Inl (Exception ''bad request'')
   \<and> Exception ''bad request'' \<noteq> RateLimitError
   \<and> get_mp3 demo_env ''Hello!'' ''onyx'' None (demo_world\<lparr>tts_calls := 1\<rparr>)
       = (Inl (Exception ''bad request''), demo_world\<lparr>tts_calls := 2\<rparr>)"
  using get_mp3_no_retry
    [of demo_env "demo_world\<lparr>tts_calls := 1\<rparr>" None "''onyx''" "''Hello!''"
        "Exception ''bad request''" 1]
  by (simp add: demo_env_def demo_speech_def)

text \<open>
  C3, as stated, fails.  Under a rate limit that lasts, the call makes its five
  requests and waits 4, 4, 4 and 8 seconds between them: the minimum of 4 seconds
  absorbs the first three steps of the doubling, so the delays are not strictly
  increasing.
\<close>

theorem get_mp3_delays_counterexample:
  "fst (get_mp3 rate_limited_env ''Hi'' ''alloy'' None demo_world) = Inl (RetryError RateLimitError)
   \<and> tts_calls (snd (get_mp3 rate_limited_env ''Hi'' ''alloy'' None demo_world)) = 5
   \<and> slept (snd (get_mp3 rate_limited_env ''Hi'' ''alloy'' None demo_world)) = [4, 4, 4, 8]
   \<and> \<not> sorted_wrt (<) (slept (snd (get_mp3 rate_limited_env ''Hi'' ''alloy'' None demo_world)))"
  by (simp add: rate_limited_env_def demo_env_def demo_world_def get_mp3_def
      get_mp3_from.simps speech_request_def stop_after_attempt_def wait_exponential_def
      sleep_def py_or_def)

text \<open>
  C3, amended.  When the five requests of a call are all answered with a rate-limit
  error, \<open>get_mp3\<close> makes exactly these five requests, sleeps 4, 4, 4 and 8 seconds
  between them (never less than the minimum of 4, never more than the ceiling of 60,
  never decreasing) and raises tenacity's \<open>RetryError\<close> around the rate-limit error; the
  loop of \<open>generate_audio\<close> catches it: the line gets its record with the failure marker,
  audio and character count stay, and the loop goes on from that state.
\<close>

theorem sustained_rate_limit:
  assumes v: "voice line = Inr v"
    and rl: "\<forall>k<5. speech e (tts_calls w + k) (py_or api_key (getenv_key e)) v (item_text line)
                 = Inl RateLimitError"
  shows "get_mp3 e (item_text line) v api_key w =
           (Inl (RetryError RateLimitError),
            w\<lparr>tts_calls := tts_calls w + 5, slept := slept w @ [4, 4, 4, 8]\<rparr>)
    \<and> process_line e api_key line (a, w) =
           (a\<lparr>transcript := transcript a @ transcript_line line @ failure_marker @ two_newlines\<rparr>,
            w\<lparr>tts_calls := tts_calls w + 5, slept := slept w @ [4, 4, 4, 8]\<rparr>)"
proof -
  let ?sp = "\<lambda>k. speech e k (py_or api_key (getenv_key e)) v (item_text line)"
  have k: "?sp (tts_calls w + k) = Inl RateLimitError" if "k < 5" for k
    using rl that by blast
  have c: "?sp (tts_calls w) = Inl RateLimitError"
    "?sp (Suc (tts_calls w)) = Inl RateLimitError"
    "?sp (Suc (Suc (tts_calls w))) = Inl RateLimitError"
    "?sp (Suc (Suc (Suc (tts_calls w)))) = Inl RateLimitError"
    "?sp (Suc (Suc (Suc (Suc (tts_calls w))))) = Inl RateLimitError"
    using k [of 0] k [of 1] k [of 2] k [of 3] k [of 4]
    by (simp_all add: numeral_eq_Suc)
  have g: "get_mp3 e (item_text line) v api_key w =
           (Inl (RetryError RateLimitError),
            w\<lparr>tts_calls := tts_calls w + 5, slept := slept w @ [4, 4, 4, 8]\<rparr>)"
    using c
    by (simp add: get_mp3_def get_mp3_from.simps speech_request_def stop_after_attempt_def
        wait_exponential_def sleep_def)
  show ?thesis using g v by (simp add: process_line_def synthesize_def)
qed

theorem sustained_rate_limit_witness:
  "voice \<lparr>item_text = ''Hi'', speaker = Female1\<rparr> = Inr ''alloy''
   \<and> speech rate_limited_env (tts_calls demo_world + 4)
         (py_or None (getenv_key rate_limited_env)) ''alloy'' ''Hi'' = Inl RateLimitError
   \<and> process_line rate_limited_env None \<lparr>item_text = ''Hi'', speaker = Female1\<rparr>
        (empty_acc, demo_world) =
       (empty_acc\<lparr>transcript := ''female-1: Hi [AUDIO GENERATION FAILED]'' @ two_newlines\<rparr>,
        demo_world\<lparr>tts_calls := 5, slept := [4, 4, 4, 8]\<rparr>)"
  using sustained_rate_limit
    [of "\<lparr>item_text = ''Hi'', speaker = Female1\<rparr>" "''alloy''" rate_limited_env demo_world
        None empty_acc]
  by (simp add: voice_def voice_table_def rate_limited_env_def demo_env_def demo_world_def
      empty_acc_def transcript_line_def failure_marker_def)

section \<open>The loop over the lines\<close>

lemma process_line_transcript:
  "transcript (fst (process_line e api_key line s)) =
     transcript (fst s) @ line_record line (fst (synthesize e api_key line (snd s)))"
  by (cases s; cases "synthesize e api_key line (snd s)";
      cases "fst (synthesize e api_key line (snd s))")
     (auto simp: process_line_def line_record_def)

lemma process_line_audio:
  "audio (fst (process_line e api_key line s)) =
     audio (fst s) @ payload (fst (synthesize e api_key line (snd s)))"
  by (cases s; cases "synthesize e api_key line (snd s)";
      cases "fst (synthesize e api_key line (snd s))")
     (auto simp: process_line_def)

lemma length_outcomes: "length (outcomes e api_key lines s) = length lines"
  by (induction lines arbitrary: s) simp_all

lemma process_lines_transcript:
  "transcript (fst (process_lines e api_key lines s)) =
     transcript (fst s) @ concat (map2 line_record lines (outcomes e api_key lines s))"
  by (induction lines arbitrary: s) (simp_all add: process_line_transcript)

lemma process_lines_audio:
  "audio (fst (process_lines e api_key lines s)) =
     audio (fst s) @ concat (map payload (outcomes e api_key lines s))"
  by (induction lines arbitrary: s) (simp_all add: process_line_audio)

text \<open>
  C1.  The transcript of a run over \<open>N\<close> lines is the concatenation of \<open>N\<close> records, the
  \<open>i\<close>-th made from line \<open>i\<close>: the line as \<^verbatim>\<open>speaker: text\<close>, then the failure marker
  exactly when the synthesis of line \<open>i\<close> failed, then the two newlines.  This holds for
  every behaviour of the speech service.  (The marker is what the loop adds to the
  line; the text of a line is copied as it is.)
\<close>

theorem transcript_records:
  "length (records e api_key lines w) = length lines
   \<and> transcript (fst (process_lines e api_key lines (empty_acc, w)))
       = concat (records e api_key lines w)
   \<and> (\<forall>i<length lines.
         (records e api_key lines w ! i
            = transcript_line (lines ! i) @ failure_marker @ two_newlines)
           = isl (outcomes e api_key lines (empty_acc, w) ! i)
       \<and> (records e api_key lines w ! i = transcript_line (lines ! i) @ two_newlines)
           = (\<not> isl (outcomes e api_key lines (empty_acc, w) ! i)))"
proof -
  have len: "length (records e api_key lines w) = length lines"
    by (simp add: records_def length_outcomes)
  have tr: "transcript (fst (process_lines e api_key lines (empty_acc, w)))
       = concat (records e api_key lines w)"
    by (simp add: records_def process_lines_transcript empty_acc_def)
  have ix: "records e api_key lines w ! i
      = line_record (lines ! i) (outcomes e api_key lines (empty_acc, w) ! i)"
    if "i < length lines" for i
    using that by (simp add: records_def length_outcomes)
  show ?thesis
    using len tr by (simp add: ix line_record_def failure_marker_def)
qed

theorem transcript_records_witness:
  "(1::nat) < length demo_lines
   \<and> outcomes demo_env None demo_lines (empty_acc, demo_world) =
       [Inr [73, 68, 51], Inl (Exception ''bad request''), Inl (RetryError RateLimitError)]
   \<and> records demo_env None demo_lines demo_world ! 1
       = transcript_line (demo_lines ! 1) @ failure_marker @ two_newlines
   \<and> transcript (fst (process_lines demo_env None demo_lines (empty_acc, demo_world))) =
       ''female-1: Hi'' @ two_newlines
       @ ''male-1: Hello! [AUDIO GENERATION FAILED]'' @ two_newlines
       @ ''female-2: Bye [AUDIO GENERATION FAILED]'' @ two_newlines"
  using transcript_records [of demo_env None demo_lines demo_world]
  by (simp add: records_def demo_env_def demo_lines_def demo_world_def demo_speech_def
      empty_acc_def process_line_def synthesize_def voice_def voice_table_def get_mp3_def
      get_mp3_from.simps speech_request_def py_or_def stop_after_attempt_def
      wait_exponential_def sleep_def line_record_def transcript_line_def failure_marker_def)

lemma payload_projr: "\<forall>r\<in>set xs. \<not> isl r \<Longrightarrow> map payload xs = map projr xs"
proof (induction xs)
  case Nil
  show ?case by simp
next
  case (Cons r xs)
  then show ?case by (cases r) simp_all
qed

text \<open>
  C2.  The audio of a run is the concatenation, in the order of the lines, of what each
  synthesis contributes: its payload when it succeeded, nothing when it failed.  So its
  length is the sum of the lengths of the successful payloads, and when every synthesis
  succeeds it is the concatenation of all the payloads.
\<close>

theorem audio_concatenation:
  "audio (fst (process_lines e api_key lines (empty_acc, w)))
     = concat (map payload (outcomes e api_key lines (empty_acc, w)))
   \<and> length (audio (fst (process_lines e api_key lines (empty_acc, w))))
     = sum_list (map (length \<circ> payload) (outcomes e api_key lines (empty_acc, w)))
   \<and> ((\<forall>r\<in>set (outcomes e api_key lines (empty_acc, w)). \<not> isl r) \<longrightarrow>
        audio (fst (process_lines e api_key lines (empty_acc, w)))
          = concat (map projr (outcomes e api_key lines (empty_acc, w))))"
proof -
  let ?outs = "outcomes e api_key lines (empty_acc, w)"
  have a: "audio (fst (process_lines e api_key lines (empty_acc, w))) = concat (map payload ?outs)"
    by (simp add: process_lines_audio empty_acc_def)
  have l: "length (concat (map payload ?outs)) = sum_list (map (length \<circ> payload) ?outs)"
    by (simp add: length_concat comp_def)
  show ?thesis
  proof (intro conjI impI)
    show "audio (fst (process_lines e api_key lines (empty_acc, w))) = concat (map payload ?outs)"
      by (rule a)
    show "length (audio (fst (process_lines e api_key lines (empty_acc, w))))
        = sum_list (map (length \<circ> payload) ?outs)"
      by (simp only: a l)
    assume "\<forall>r\<in>set ?outs. \<not> isl r"
    then have "map payload ?outs = map projr ?outs"
      by (rule payload_projr)
    then show "audio (fst (process_lines e api_key lines (empty_acc, w)))
        = concat (map projr ?outs)"
      by (simp only: a)
  qed
qed

theorem audio_concatenation_witness:
  "audio (fst (process_lines demo_env None demo_lines (empty_acc, demo_world))) = [73, 68, 51]
   \<and> outcomes demo_env None (take 1 demo_lines) (empty_acc, demo_world) = [Inr [73, 68, 51]]
   \<and> audio (fst (process_lines demo_env None (take 1 demo_lines) (empty_acc, demo_world)))
       = concat (map projr (outcomes demo_env None (take 1 demo_lines) (empty_acc, demo_world)))"
  using audio_concatenation [of demo_env None demo_lines demo_world]
    audio_concatenation [of demo_env None "take 1 demo_lines" demo_world]
  by (simp add: demo_env_def demo_lines_def demo_world_def demo_speech_def
      empty_acc_def process_line_def synthesize_def voice_def voice_table_def get_mp3_def
      get_mp3_from.simps speech_request_def py_or_def stop_after_attempt_def
      wait_exponential_def sleep_def)

text \<open>
  C10.  When the synthesis of a line fails, the iteration leaves the audio and the
  character count as they were, appends to the transcript the record of the line with
  the failure marker, and leaves the world as the failed call left it: the sleeps of
  the iteration are the waits of the retries only (each at least 4 seconds), the pause
  of 0.2 seconds is not among them.
\<close>

theorem failed_line_isolated:
  assumes "fst (synthesize e api_key line w) = Inl x"
  shows "audio (fst (process_line e api_key line (a, w))) = audio a
    \<and> characters (fst (process_line e api_key line (a, w))) = characters a
    \<and> transcript (fst (process_line e api_key line (a, w))) =
        transcript a @ transcript_line line @ failure_marker @ two_newlines
    \<and> snd (process_line e api_key line (a, w)) = snd (synthesize e api_key line w)
    \<and> (\<exists>ds. slept (snd (process_line e api_key line (a, w))) = slept w @ ds \<and> 0.2 \<notin> set ds)"
proof -
  obtain r w1 where s: "synthesize e api_key line w = (r, w1)"
    by (cases "synthesize e api_key line w")
  with assms have r: "r = Inl x" by simp
  have p: "process_line e api_key line (a, w) =
      (a\<lparr>transcript := transcript a @ transcript_line line @ failure_marker @ two_newlines\<rparr>, w1)"
    by (simp add: process_line_def s r)
  have "\<exists>ds. slept w1 = slept w @ ds \<and> (\<forall>d\<in>set ds. 4 \<le> d \<and> d \<le> 60)"
  proof (cases "voice line")
    case (Inl y)
    with s show ?thesis by (simp add: synthesize_def)
  next
    case (Inr v)
    with s have "w1 = snd (get_mp3_from e (item_text line) v api_key 1 w)"
      by (simp add: synthesize_def get_mp3_def)
    then show ?thesis using get_mp3_from_sleeps by simp
  qed
  then obtain ds where ds: "slept w1 = slept w @ ds" "\<forall>d\<in>set ds. 4 \<le> d \<and> d \<le> 60"
    by blast
  have "(0.2::real) \<notin> set ds"
  proof
    assume "(0.2::real) \<in> set ds"
    with ds(2) have "(4::real) \<le> 0.2" by blast
    then show False by simp
  qed
  with ds(1) p s show ?thesis by auto
qed

theorem failed_line_isolated_witness:
  "fst (synthesize demo_env None \<lparr>item_text = ''Hello!'', speaker = Male1\<rparr>
          (demo_world\<lparr>tts_calls := 1\<rparr>)) = Inl (Exception ''bad request'')
   \<and> audio (fst (process_line demo_env None \<lparr>item_text = ''Hello!'', speaker = Male1\<rparr>
          (\<lparr>audio = [73, 68, 51], transcript = ''t'', characters = 2\<rparr>,
           demo_world\<lparr>tts_calls := 1\<rparr>))) = [73, 68, 51]
   \<and> slept (snd (process_line demo_env None \<lparr>item_text = ''Hello!'', speaker = Male1\<rparr>
          (\<lparr>audio = [73, 68, 51], transcript = ''t'', characters = 2\<rparr>,
           demo_world\<lparr>tts_calls := 1\<rparr>))) = []"
  using failed_line_isolated
    [of demo_env None "\<lparr>item_text = ''Hello!'', speaker = Male1\<rparr>"
        "demo_world\<lparr>tts_calls := 1\<rparr>" "Exception ''bad request''"
        "\<lparr>audio = [73, 68, 51], transcript = ''t'', characters = 2\<rparr>"]
  by (simp add: demo_env_def demo_world_def demo_speech_def process_line_def synthesize_def
      voice_def voice_table_def get_mp3_def get_mp3_from.simps speech_request_def py_or_def)

section \<open>An empty document\<close>

lemma strip_empty_iff: "strip t = [] \<longleftrightarrow> whitespace_only t"
proof -
  have "(\<forall>x\<in>set (dropWhile isspace t). isspace x) \<longleftrightarrow> (\<forall>x\<in>set t. isspace x)"
  proof
    assume a: "\<forall>x\<in>set (dropWhile isspace t). isspace x"
    have "dropWhile isspace t = []"
    proof (cases "dropWhile isspace t")
      case (Cons x xs)
      then have "\<not> isspace (hd (dropWhile isspace t))"
        using hd_dropWhile [of isspace t] by simp
      with a Cons show ?thesis by simp
    qed simp
    then show "\<forall>x\<in>set t. isspace x" by simp
  next
    assume "\<forall>x\<in>set t. isspace x"
    then show "\<forall>x\<in>set (dropWhile isspace t). isspace x"
      by (meson set_dropWhileD)
  qed
  then show ?thesis
    by (simp add: strip_def whitespace_only_def list_all_iff)
qed


text \<open>
  C8.  When the text of the document, from either source, is empty or consists of
  white space only, \<open>generate_audio\<close> raises \<^verbatim>\<open>gr.Error\<close> and the world is as it was
  before the call: no request has gone to the language model, none to the speech
  service, and no file has been written.
\<close>

theorem empty_text_aborts:
  assumes "source_text e file_or_url = Inr t" and "whitespace_only t"
  shows "\<exists>m. generate_audio e file_or_url openai_api_key w = Some (Inl (Error m), w)"
  using assms by (simp add: generate_audio_def extract_text_def strip_empty_iff)

theorem empty_text_aborts_witness:
  "source_text demo_env ''https://docs.google.com/document/d/abc'' = Inr [CHR 0x20, CHR 0x0A]
   \<and> whitespace_only [CHR 0x20, CHR 0x0A]
   \<and> (\<exists>m. generate_audio demo_env ''https://docs.google.com/document/d/abc'' (Some ''sk-1'') demo_world
          = Some (Inl (Error m), demo_world))"
proof -
  have u: "is_google_docs_url ''https://docs.google.com/document/d/abc''"
    by (simp add: is_google_docs_url_def sublist_code(3))
  show ?thesis
    using empty_text_aborts [of demo_env "''https://docs.google.com/document/d/abc''"
        "[CHR 0x20, CHR 0x0A]" "Some ''sk-1''" demo_world]
    by (simp add: source_text_def u demo_env_def whitespace_only_def isspace_def)
qed


section \<open>The retries of generate_dialogue\<close>

lemma generate_dialogue_Some:
  assumes "generate_dialogue e api_key t n w = Some r"
  shows "\<exists>k. llm e (llm_calls w + k) (py_or api_key (getenv_key e)) t \<noteq> Inl ValidationError"
proof (rule generate_dialogue.raw_induct
    [where P = "\<lambda>e api_key t n w r.
       \<exists>k. llm e (llm_calls w + k) (py_or api_key (getenv_key e)) t \<noteq> Inl ValidationError",
     OF _ assms])
  fix gd :: "env \<Rightarrow> string option \<Rightarrow> string \<Rightarrow> nat \<Rightarrow> world
      \<Rightarrow> ((exn + Dialogue) \<times> world) option"
    and e api_key t n w r
  assume IH: "\<And>e api_key t n w r. gd e api_key t n w = Some r \<Longrightarrow>
     \<exists>k. llm e (llm_calls w + k) (py_or api_key (getenv_key e)) t \<noteq> Inl ValidationError"
  assume step: "(case llm e (llm_calls w) (py_or api_key (getenv_key e)) t of
      Inl x \<Rightarrow>
        if x \<noteq> ValidationError
        then Some (Inl x, w\<lparr>llm_calls := Suc (llm_calls w)\<rparr>)
        else gd e api_key t (Suc n)
              (sleep (wait_none n) (w\<lparr>llm_calls := Suc (llm_calls w)\<rparr>))
      | Inr d \<Rightarrow> Some (Inr d, w\<lparr>llm_calls := Suc (llm_calls w)\<rparr>)) = Some r"
  show "\<exists>k. llm e (llm_calls w + k) (py_or api_key (getenv_key e)) t \<noteq> Inl ValidationError"
  proof (cases "llm e (llm_calls w) (py_or api_key (getenv_key e)) t = Inl ValidationError")
    case False
    then have "llm e (llm_calls w + 0) (py_or api_key (getenv_key e)) t \<noteq> Inl ValidationError"
      by simp
    then show ?thesis by blast
  next
    case True
    with step have "gd e api_key t (Suc n)
        (sleep (wait_none n) (w\<lparr>llm_calls := Suc (llm_calls w)\<rparr>)) = Some r"
      by simp
    from IH [OF this] obtain k where
      "llm e (Suc (llm_calls w) + k) (py_or api_key (getenv_key e)) t \<noteq> Inl ValidationError"
      by (auto simp: sleep_def)
    then have "llm e (llm_calls w + Suc k) (py_or api_key (getenv_key e)) t \<noteq> Inl ValidationError"
      by simp
    then show ?thesis by blast
  qed
qed

lemma generate_dialogue_first:
  "\<forall>j<k. llm e (llm_calls w + j) (py_or api_key (getenv_key e)) t = Inl ValidationError \<Longrightarrow>
   llm e (llm_calls w + k) (py_or api_key (getenv_key e)) t \<noteq> Inl ValidationError \<Longrightarrow>
   generate_dialogue e api_key t n w =
     Some (llm e (llm_calls w + k) (py_or api_key (getenv_key e)) t,
           w\<lparr>llm_calls := llm_calls w + k + 1, slept := slept w @ replicate k 0\<rparr>)"
proof (induction k arbitrary: n w)
  case 0
  then show ?case
    by (subst generate_dialogue.simps) (auto split: sum.splits)
next
  case (Suc k)
  let ?w = "sleep (wait_none n) (w\<lparr>llm_calls := Suc (llm_calls w)\<rparr>)"
  from Suc.prems(1) have h0: "llm e (llm_calls w) (py_or api_key (getenv_key e)) t = Inl ValidationError"
    by (metis add.right_neutral zero_less_Suc)
  have a: "\<forall>j<k. llm e (llm_calls ?w + j) (py_or api_key (getenv_key e)) t = Inl ValidationError"
  proof (intro allI impI)
    fix j assume "j < k"
    then have "Suc j < Suc k" by simp
    with Suc.prems(1) have "llm e (llm_calls w + Suc j) (py_or api_key (getenv_key e)) t = Inl ValidationError"
      by blast
    then show "llm e (llm_calls ?w + j) (py_or api_key (getenv_key e)) t = Inl ValidationError"
      by (simp add: sleep_def)
  qed
  have b: "llm e (llm_calls ?w + k) (py_or api_key (getenv_key e)) t \<noteq> Inl ValidationError"
    using Suc.prems(2) by (simp add: sleep_def)
  have "generate_dialogue e api_key t n w = generate_dialogue e api_key t (Suc n) ?w"
    by (subst generate_dialogue.simps) (simp add: h0)
  also have "\<dots> = Some (llm e (llm_calls ?w + k) (py_or api_key (getenv_key e)) t,
           ?w\<lparr>llm_calls := llm_calls ?w + k + 1, slept := slept ?w @ replicate k 0\<rparr>)"
    by (rule Suc.IH [OF a b])
  finally show ?case
    by (simp add: sleep_def wait_none_def replicate_app_Cons_same)
qed


text \<open>
  C5, as stated, fails: no bound stops the regeneration.  With a language model whose
  output fails validation every time, the call never returns, so no error ever reaches
  the caller.
\<close>

theorem generate_dialogue_counterexample:
  "generate_dialogue invalid_env None ''Page one'' 1 demo_world = None"
proof (cases "generate_dialogue invalid_env None ''Page one'' 1 demo_world")
  case None
  then show ?thesis .
next
  case (Some r)
  from generate_dialogue_Some [OF this] show ?thesis
    by (simp add: invalid_env_def)
qed


text \<open>
  C5, amended.  A validation failure makes \<open>generate_dialogue\<close> ask again at once (a
  sleep of 0 seconds), with no bound on the number of attempts: for every \<open>k\<close>, after
  \<open>k\<close> failed validations in a row the outcome of the next request, a dialogue or an
  error of another class, is the result, after \<open>k + 1\<close> requests; and when validation
  fails every time the call never returns.
\<close>

theorem generate_dialogue_unbounded:
  "((\<forall>j<k. llm e (llm_calls w + j) (py_or api_key (getenv_key e)) t = Inl ValidationError)
      \<and> llm e (llm_calls w + k) (py_or api_key (getenv_key e)) t \<noteq> Inl ValidationError
    \<longrightarrow> generate_dialogue e api_key t 1 w =
          Some (llm e (llm_calls w + k) (py_or api_key (getenv_key e)) t,
                w\<lparr>llm_calls := llm_calls w + k + 1, slept := slept w @ replicate k 0\<rparr>))
   \<and> ((\<forall>j. llm e (llm_calls w + j) (py_or api_key (getenv_key e)) t = Inl ValidationError)
    \<longrightarrow> generate_dialogue e api_key t 1 w = None)"
proof (intro conjI impI)
  assume "(\<forall>j<k. llm e (llm_calls w + j) (py_or api_key (getenv_key e)) t = Inl ValidationError)
      \<and> llm e (llm_calls w + k) (py_or api_key (getenv_key e)) t \<noteq> Inl ValidationError"
  then show "generate_dialogue e api_key t 1 w =
          Some (llm e (llm_calls w + k) (py_or api_key (getenv_key e)) t,
                w\<lparr>llm_calls := llm_calls w + k + 1, slept := slept w @ replicate k 0\<rparr>)"
    using generate_dialogue_first by blast
next
  assume all: "\<forall>j. llm e (llm_calls w + j) (py_or api_key (getenv_key e)) t = Inl ValidationError"
  show "generate_dialogue e api_key t 1 w = None"
  proof (cases "generate_dialogue e api_key t 1 w")
    case None
    then show ?thesis .
  next
    case (Some r)
    from generate_dialogue_Some [OF this] all show ?thesis by blast
  qed
qed


theorem generate_dialogue_unbounded_witness:
  "llm demo_env (llm_calls demo_world + 0) (py_or None (getenv_key demo_env)) ''Page one''
      = Inl ValidationError
   \<and> llm demo_env (llm_calls demo_world + 1) (py_or None (getenv_key demo_env)) ''Page one''
        \<noteq> Inl ValidationError
   \<and> generate_dialogue demo_env None ''Page one'' 1 demo_world =
        Some (Inr \<lparr>scratchpad = ''plan'', dialogue = demo_lines\<rparr>,
              demo_world\<lparr>llm_calls := 2, slept := [0]\<rparr>)
   \<and> (\<forall>j. llm invalid_env (llm_calls demo_world + j) (py_or None (getenv_key invalid_env))
             ''Page one'' = Inl ValidationError)
   \<and> generate_dialogue invalid_env None ''Page one'' 1 demo_world = None"
  using generate_dialogue_unbounded [of 1 demo_env demo_world None "''Page one''"]
    generate_dialogue_unbounded [of 0 invalid_env demo_world None "''Page one''"]
  by (simp add: demo_env_def invalid_env_def demo_llm_def demo_world_def)

section \<open>The retention sweep\<close>































end
